theory Spec2Isabelle
  imports Complex_Main "HOL-Library.Sublist" "HOL-Library.AList"
begin

section \<open>Productivity Launcher: the logic beneath the view\<close>

text \<open>
  The launcher is one React component file. The definitions below embed the parts of it
  that compute: the string helpers its expressions call, the tile operations of the
  main component and of the Manage Tiles dialog, the theme cycle, the theme resolver
  \<open>applyTheme\<close> and the storage hook \<open>usePersistentState\<close>.

  A JavaScript string is a sequence of UTF-16 code units. The strings of this theory
  hold the code units U+0000 to U+00FF, one \<open>char\<close> for each: \<open>CHR 0xE9\<close> is the unit
  U+00E9. On these strings the functions of the runtime are written out in full.
  \<open>toLowerCase\<close> maps \<open>A..Z\<close> and U+00C0..U+00DE, without the sign U+00D7, to the unit
  32 above and leaves every other unit. \<open>trim\<close> removes TAB, LF, VT, FF, CR, the space
  and the no-break space U+00A0 at both ends. \<open>normalize("NFKD")\<close> replaces a unit by
  its compatibility decomposition; a decomposition can hold units above U+00FF, so
  \<open>slugify\<close> computes on code units as numbers.
\<close>

subsection \<open>String helpers of the runtime\<close>

definition toLowerCase_char :: "char \<Rightarrow> char" where
  "toLowerCase_char c =
     (let n = (of_char c :: nat)
      in if (65 \<le> n \<and> n \<le> 90) \<or> (192 \<le> n \<and> n \<le> 222 \<and> n \<noteq> 215)
         then char_of (n + 32)
         else c)"

definition toLowerCase :: "string \<Rightarrow> string" where
  "toLowerCase s = map toLowerCase_char s"

definition is_space :: "char \<Rightarrow> bool" where
  "is_space c = ((of_char c :: nat) \<in> {9, 10, 11, 12, 13, 32, 160})"

definition trim :: "string \<Rightarrow> string" where
  "trim s = rev (dropWhile is_space (rev (dropWhile is_space s)))"


text \<open>\<open>s.split(sep)\<close> for a one-character separator: \<open>"".split(",")\<close> is \<open>[""]\<close>.\<close>

fun split_str :: "char \<Rightarrow> string \<Rightarrow> string list" where
  "split_str sep [] = [[]]"
| "split_str sep (c # cs) =
     (if c = sep then [] # split_str sep cs
      else (case split_str sep cs of
              [] \<Rightarrow> [[c]]
            | p # ps \<Rightarrow> (c # p) # ps))"

text \<open>\<open>Boolean(s)\<close> on a string: the empty string is falsy.\<close>

definition Boolean_str :: "string \<Rightarrow> bool" where
  "Boolean_str s = (s \<noteq> [])"

text \<open>\<open>Boolean(v)\<close> on a value that is a string, \<open>null\<close> or \<open>undefined\<close>.\<close>

definition Boolean_opt :: "string option \<Rightarrow> bool" where
  "Boolean_opt v = (case v of None \<Rightarrow> False | Some s \<Rightarrow> Boolean_str s)"

text \<open>
  Reading and writing a JavaScript array by index. A read out of range is \<open>undefined\<close>
  (\<open>None\<close>); a write out of range extends the array, leaving holes.
\<close>

definition js_get :: "'a option list \<Rightarrow> int \<Rightarrow> 'a option" where
  "js_get xs i = (if 0 \<le> i \<and> i < int (length xs) then xs ! nat i else None)"

definition js_set :: "'a option list \<Rightarrow> nat \<Rightarrow> 'a option \<Rightarrow> 'a option list" where
  "js_set xs i v =
     (if i < length xs then xs[i := v]
      else xs @ replicate (i - length xs) None @ [v])"

subsection \<open>Types\<close>

datatype icon_key = CalendarClock | Gauge | CheckSquare | NotebookPen | FolderKanban | ListTodo

record Tile =
  tile_id :: string
  title :: string
  subtitle :: "string option"
  url :: string
  icon :: icon_key
  color :: string
  tags :: "string list option"

datatype ThemeName = light | dark | grafit | surprise

subsection \<open>Theme cycle\<close>

text \<open>The updater \<open>next\<close> of \<open>ThemeToggle\<close>, run on a click.\<close>

definition ThemeToggle_next :: "ThemeName \<Rightarrow> ThemeName" where
  "ThemeToggle_next prev =
     (if prev = light then dark
      else if prev = dark then grafit
      else if prev = grafit then surprise
      else light)"

text \<open>
  The key handler \<open>onKey\<close> of the main component, on the part of the component's state
  it touches: \<open>/\<close> focuses the search box, \<open>t\<close> or \<open>T\<close> advances the theme, \<open>?\<close> opens
  the help dialog.
\<close>

record launcher =
  theme :: ThemeName
  helpOpen :: bool
  searchFocused :: bool

definition onKey :: "string \<Rightarrow> launcher \<Rightarrow> launcher" where
  "onKey key s =
     (if key = ''/'' then s\<lparr>searchFocused := True\<rparr>
      else if toLowerCase key = ''t'' then
        s\<lparr>theme :=
            (if theme s = light then dark
             else if theme s = dark then grafit
             else if theme s = grafit then surprise
             else light)\<rparr>
      else if key = ''?'' then s\<lparr>helpOpen := True\<rparr>
      else s)"

text \<open>The theme states reachable from a start state by clicks and key presses.\<close>

inductive theme_reachable :: "ThemeName \<Rightarrow> ThemeName \<Rightarrow> bool" for start :: ThemeName where
  reach_start: "theme_reachable start start"
| reach_click: "theme_reachable start t \<Longrightarrow> theme_reachable start (ThemeToggle_next t)"
| reach_key: "theme_reachable start t \<Longrightarrow>
    theme_reachable start (theme (onKey key \<lparr>theme = t, helpOpen = h, searchFocused = f\<rparr>))"

subsection \<open>Search filter\<close>



subsection \<open>Saving an edited tile\<close>

text \<open>The \<open>onSave\<close> handler of \<open>EditTileModal\<close>: \<open>prev.map(t => t.id === updated.id ? updated : t)\<close>.\<close>

definition onSave_edit :: "Tile \<Rightarrow> Tile list \<Rightarrow> Tile list" where
  "onSave_edit updated prev = map (\<lambda>t. if tile_id t = tile_id updated then updated else t) prev"

subsection \<open>The Manage Tiles dialog\<close>

text \<open>
  \<open>slugify\<close>, step by step as written: \<open>toLowerCase\<close>, \<open>normalize("NFKD")\<close>, removal of
  the combining marks U+0300..U+036F, every maximal run of units outside \<open>a-z0-9\<close>
  replaced by one dash, and a dash at the start and a dash at the end removed.

  \<open>NFKD_table\<close> is the Unicode character database's compatibility decomposition of the
  units up to U+00FF that have one; every other unit of that range stays. No unit of the
  range is a combining mark, so the decomposition of a string is the decompositions of
  its units in sequence.
\<close>

definition NFKD_table :: "(char \<times> nat list) list" where
  "NFKD_table =
     [(CHR 0xA0, [0x20]), (CHR 0xA8, [0x20, 0x308]), (CHR 0xAA, [0x61]), (CHR 0xAF, [0x20, 0x304]),
      (CHR 0xB2, [0x32]), (CHR 0xB3, [0x33]), (CHR 0xB4, [0x20, 0x301]), (CHR 0xB5, [0x3BC]),
      (CHR 0xB8, [0x20, 0x327]), (CHR 0xB9, [0x31]), (CHR 0xBA, [0x6F]), (CHR 0xBC, [0x31, 0x2044, 0x34]),
      (CHR 0xBD, [0x31, 0x2044, 0x32]), (CHR 0xBE, [0x33, 0x2044, 0x34]), (CHR 0xC0, [0x41, 0x300]), (CHR 0xC1, [0x41, 0x301]),
      (CHR 0xC2, [0x41, 0x302]), (CHR 0xC3, [0x41, 0x303]), (CHR 0xC4, [0x41, 0x308]), (CHR 0xC5, [0x41, 0x30A]),
      (CHR 0xC7, [0x43, 0x327]), (CHR 0xC8, [0x45, 0x300]), (CHR 0xC9, [0x45, 0x301]), (CHR 0xCA, [0x45, 0x302]),
      (CHR 0xCB, [0x45, 0x308]), (CHR 0xCC, [0x49, 0x300]), (CHR 0xCD, [0x49, 0x301]), (CHR 0xCE, [0x49, 0x302]),
      (CHR 0xCF, [0x49, 0x308]), (CHR 0xD1, [0x4E, 0x303]), (CHR 0xD2, [0x4F, 0x300]), (CHR 0xD3, [0x4F, 0x301]),
      (CHR 0xD4, [0x4F, 0x302]), (CHR 0xD5, [0x4F, 0x303]), (CHR 0xD6, [0x4F, 0x308]), (CHR 0xD9, [0x55, 0x300]),
      (CHR 0xDA, [0x55, 0x301]), (CHR 0xDB, [0x55, 0x302]), (CHR 0xDC, [0x55, 0x308]), (CHR 0xDD, [0x59, 0x301]),
      (CHR 0xE0, [0x61, 0x300]), (CHR 0xE1, [0x61, 0x301]), (CHR 0xE2, [0x61, 0x302]), (CHR 0xE3, [0x61, 0x303]),
      (CHR 0xE4, [0x61, 0x308]), (CHR 0xE5, [0x61, 0x30A]), (CHR 0xE7, [0x63, 0x327]), (CHR 0xE8, [0x65, 0x300]),
      (CHR 0xE9, [0x65, 0x301]), (CHR 0xEA, [0x65, 0x302]), (CHR 0xEB, [0x65, 0x308]), (CHR 0xEC, [0x69, 0x300]),
      (CHR 0xED, [0x69, 0x301]), (CHR 0xEE, [0x69, 0x302]), (CHR 0xEF, [0x69, 0x308]), (CHR 0xF1, [0x6E, 0x303]),
      (CHR 0xF2, [0x6F, 0x300]), (CHR 0xF3, [0x6F, 0x301]), (CHR 0xF4, [0x6F, 0x302]), (CHR 0xF5, [0x6F, 0x303]),
      (CHR 0xF6, [0x6F, 0x308]), (CHR 0xF9, [0x75, 0x300]), (CHR 0xFA, [0x75, 0x301]), (CHR 0xFB, [0x75, 0x302]),
      (CHR 0xFC, [0x75, 0x308]), (CHR 0xFD, [0x79, 0x301]), (CHR 0xFF, [0x79, 0x308])]"

definition NFKD_unit :: "char \<Rightarrow> nat list" where
  "NFKD_unit c = (case map_of NFKD_table c of None \<Rightarrow> [of_char c] | Some d \<Rightarrow> d)"

definition normalize_NFKD :: "string \<Rightarrow> nat list" where
  "normalize_NFKD s = concat (map NFKD_unit s)"

definition is_combining_mark :: "nat \<Rightarrow> bool" where
  "is_combining_mark u = (0x300 \<le> u \<and> u \<le> 0x36F)"

definition is_slug_unit :: "nat \<Rightarrow> bool" where
  "is_slug_unit u = ((97 \<le> u \<and> u \<le> 122) \<or> (48 \<le> u \<and> u \<le> 57))"

text \<open>\<open>.replace(/[^a-z0-9]+/g, "-")\<close>; 45 is the dash.\<close>

fun dash_runs :: "nat list \<Rightarrow> nat list" where
  "dash_runs [] = []"
| "dash_runs (u # us) =
     (if is_slug_unit u then u # dash_runs us
      else (case us of
              [] \<Rightarrow> [45]
            | v # vs \<Rightarrow> if is_slug_unit v then 45 # dash_runs us else dash_runs us))"

text \<open>\<open>.replace(/(^-|-$)+/g, "")\<close>.\<close>

definition strip_dashes :: "nat list \<Rightarrow> nat list" where
  "strip_dashes s =
     (let s1 = (case s of [] \<Rightarrow> [] | u # us \<Rightarrow> if u = 45 then us else u # us)
      in if s1 \<noteq> [] \<and> last s1 = 45 then butlast s1 else s1)"

definition slugify :: "string \<Rightarrow> string" where
  "slugify s =
     map char_of
       (strip_dashes
         (dash_runs
           (filter (\<lambda>u. \<not> is_combining_mark u) (normalize_NFKD (toLowerCase s)))))"

text \<open>
  The state of \<open>ManageTilesModal\<close>: the working copy \<open>local\<close> of the collection and the
  fields of the add form.
\<close>

record manage =
  local_tiles :: "Tile list"
  form_title :: string
  form_url :: string
  form_subtitle :: string
  form_icon :: icon_key
  form_color :: string
  form_tags :: string

text \<open>
  \<open>addTile\<close>. Its first argument \<open>rnd\<close> is the text that
  \<open>Math.random().toString(36).slice(2, 6)\<close> evaluates to: up to four characters of
  \<open>0-9a-z\<close>, drawn by the runtime.
\<close>

definition new_tile :: "string \<Rightarrow> manage \<Rightarrow> Tile" where
  "new_tile rnd m =
     \<lparr>tile_id = slugify (if Boolean_str (form_title m) then form_title m else ''tile-'') @ ''-'' @ rnd,
      title = (if Boolean_str (form_title m) then form_title m else ''Untitled''),
      subtitle = (if Boolean_str (form_subtitle m) then Some (form_subtitle m) else None),
      url = (if Boolean_str (form_url m) then form_url m else ''https://example.com''),
      icon = form_icon m,
      color = form_color m,
      tags = Some (filter Boolean_str (map trim (split_str CHR '','' (form_tags m))))\<rparr>"

definition addTile :: "string \<Rightarrow> manage \<Rightarrow> manage" where
  "addTile rnd m =
     m\<lparr>local_tiles := new_tile rnd m # local_tiles m,
       form_title := [], form_url := [], form_subtitle := [], form_tags := []\<rparr>"

definition remove_tile :: "string \<Rightarrow> manage \<Rightarrow> manage" where
  "remove_tile i m = m\<lparr>local_tiles := filter (\<lambda>t. tile_id t \<noteq> i) (local_tiles m)\<rparr>"

text \<open>
  \<open>move(i, dir)\<close> with \<open>dir\<close> of type \<open>-1 | 1\<close>. The updater copies the array, returns the
  old one when \<open>j = i + dir\<close> is no index of it, and otherwise assigns
  \<open>[next[i], next[j]] = [next[j], next[i]]\<close>. The result is an array whose entries are
  tiles or \<open>undefined\<close>, as the assignment leaves it.
\<close>

datatype direction = Up | Down

definition dir_val :: "direction \<Rightarrow> int" where
  "dir_val d = (case d of Up \<Rightarrow> -1 | Down \<Rightarrow> 1)"

definition move_updater :: "nat \<Rightarrow> direction \<Rightarrow> Tile list \<Rightarrow> Tile option list" where
  "move_updater i d prev =
     (let next = map Some prev;
          j = int i + dir_val d
      in if j < 0 \<or> j \<ge> int (length next) then map Some prev
         else
           let a = js_get next j; b = js_get next (int i)
           in js_set (js_set next i a) (nat j) b)"

text \<open>The collection a first start shows.\<close>

definition DEFAULT_TILES :: "Tile list" where
  "DEFAULT_TILES =
     [\<lparr>tile_id = ''calendar'', title = ''Calendar App'', subtitle = Some ''Plan & collaborate'',
       url = ''https://richardsipos.github.io/Calendar-App/'', icon = CalendarClock,
       color = ''from-indigo-500 to-blue-500'', tags = Some [''work'', ''planning'']\<rparr>,
      \<lparr>tile_id = ''dashboard'', title = ''Daily Dashboard'', subtitle = Some ''Track your day'',
       url = ''https://example.com/dashboard'', icon = Gauge,
       color = ''from-emerald-500 to-teal-500'', tags = Some [''habits'', ''health'']\<rparr>,
      \<lparr>tile_id = ''todo'', title = ''Todo HQ'', subtitle = Some ''Capture & do'',
       url = ''https://richardsipos.github.io/Tick-And-Top'', icon = CheckSquare,
       color = ''from-amber-500 to-orange-500'', tags = Some [''tasks'']\<rparr>]"

subsection \<open>What the search is meant to find\<close>




definition white_chars :: "char list" where
  "white_chars = [CHR 0x09, CHR 0x0A, CHR 0x0B, CHR 0x0C, CHR 0x0D, CHR 0x20, CHR 0xA0]"

definition white_space :: "char \<Rightarrow> bool" where
  "white_space c = (c \<in> set white_chars)"





text \<open>Joining texts with a separator character, the inverse of \<open>split_str\<close>.\<close>

fun join_str :: "char \<Rightarrow> string list \<Rightarrow> string" where
  "join_str sep [] = []"
| "join_str sep [p] = p"
| "join_str sep (p # q # ps) = p @ sep # join_str sep (q # ps)"

text \<open>The state in which the dialog opens over a collection.\<close>

definition ManageTilesModal_init :: "Tile list \<Rightarrow> manage" where
  "ManageTilesModal_init tiles =
     \<lparr>local_tiles = tiles, form_title = [], form_url = [], form_subtitle = [],
      form_icon = ListTodo, form_color = ''from-sky-500 to-cyan-500'', form_tags = []\<rparr>"

subsection \<open>Browser storage\<close>

text \<open>
  \<open>localStorage\<close> as the code can observe it: the stored key/value pairs, and the two ways
  an access can throw. Every access throws \<open>SecurityError\<close> when storage is disabled for
  the page; \<open>setItem\<close> throws \<open>QuotaExceededError\<close> when the pairs, with the new value in
  place, would take more room than the quota (room counted in characters of keys and
  values).
\<close>

datatype js_error = SecurityError | QuotaExceededError | SyntaxError | TypeError

record storage =
  items :: "(string \<times> string) list"
  quota :: nat
  enabled :: bool

definition getItem :: "storage \<Rightarrow> string \<Rightarrow> js_error + string option" where
  "getItem st k = (if enabled st then Inr (map_of (items st) k) else Inl SecurityError)"

definition usage :: "(string \<times> string) list \<Rightarrow> nat" where
  "usage xs = sum_list (map (\<lambda>(k, v). length k + length v) xs)"

definition setItem :: "storage \<Rightarrow> string \<Rightarrow> string \<Rightarrow> js_error + storage" where
  "setItem st k v =
     (if \<not> enabled st then Inl SecurityError
      else
        let xs = AList.update k v (items st)
        in if quota st < usage xs then Inl QuotaExceededError
           else Inr (st\<lparr>items := xs\<rparr>))"

subsection \<open>The storage hook\<close>

text \<open>
  \<open>usePersistentState<T>(key, initial)\<close>. \<open>JSON.parse\<close> and \<open>JSON.stringify\<close> belong to the
  runtime, not to the launcher; the hook takes them as parameters: \<open>JSON_parse\<close> gives the
  value of type \<open>T\<close> a text denotes or the error it throws, \<open>JSON_stringify\<close> the text of a
  value.

  \<open>usePersistentState_init\<close> is the initializer passed to \<open>useState\<close>: the \<open>try\<close> block
  reads the slot and parses a truthy text, the \<open>catch\<close> block turns whatever was thrown
  into \<open>initial\<close>.
\<close>

definition usePersistentState_init ::
    "(string \<Rightarrow> js_error + 'a) \<Rightarrow> storage \<Rightarrow> string \<Rightarrow> 'a \<Rightarrow> js_error + 'a" where
  "usePersistentState_init JSON_parse st key initial =
     (case (case getItem st key of
              Inl e \<Rightarrow> Inl e
            | Inr raw \<Rightarrow>
                (case raw of
                   None \<Rightarrow> Inr initial
                 | Some r \<Rightarrow> if Boolean_str r then JSON_parse r else Inr initial)) of
        Inl e \<Rightarrow> Inr initial
      | Inr v \<Rightarrow> Inr v)"

text \<open>
  \<open>usePersistentState_effect\<close> is the effect that runs when \<open>key\<close> or the value changed:
  it writes the text of the value to the slot and ignores what \<open>setItem\<close> throws.
\<close>

definition usePersistentState_effect ::
    "('a \<Rightarrow> string) \<Rightarrow> storage \<Rightarrow> string \<Rightarrow> 'a \<Rightarrow> js_error + storage" where
  "usePersistentState_effect JSON_stringify st key v =
     (case setItem st key (JSON_stringify v) of
        Inl e \<Rightarrow> Inr st
      | Inr st' \<Rightarrow> Inr st')"

text \<open>
  An instance of the two parameters at the type \<open>ThemeName\<close>, the type of the slot
  \<open>launcher.theme\<close>, for use at concrete inputs. \<open>JSON_stringify_ThemeName\<close> is
  \<open>JSON.stringify\<close> on the four names: the name in double quotes.
  \<open>JSON_parse_ThemeName\<close> agrees with \<open>JSON.parse\<close> on these four texts, on the empty
  text and on every text that is no JSON. It is not \<open>JSON.parse\<close> elsewhere: it rejects
  the texts that \<open>JSON.parse\<close> reads as a theme name written with white space around it
  or with escapes, and the texts of values that are no theme name, which the unchecked
  cast \<open>as T\<close> of the source lets through.
\<close>

definition ThemeName_string :: "ThemeName \<Rightarrow> string" where
  "ThemeName_string t =
     (case t of light \<Rightarrow> ''light'' | dark \<Rightarrow> ''dark'' | grafit \<Rightarrow> ''grafit''
      | surprise \<Rightarrow> ''surprise'')"

definition JSON_stringify_ThemeName :: "ThemeName \<Rightarrow> string" where
  "JSON_stringify_ThemeName t = CHR 0x22 # ThemeName_string t @ [CHR 0x22]"

definition JSON_parse_ThemeName :: "string \<Rightarrow> js_error + ThemeName" where
  "JSON_parse_ThemeName raw =
     (case filter (\<lambda>t. JSON_stringify_ThemeName t = raw) [light, dark, grafit, surprise] of
        [] \<Rightarrow> Inl SyntaxError
      | t # ts \<Rightarrow> Inr t)"

subsection \<open>Theme resolver\<close>

record ThemeTokens =
  bg :: string
  fg :: string
  card :: string
  muted :: string
  accent :: string
  ring :: string

text \<open>The two object literals, as their properties in the order written.\<close>

definition SURPRISE_PALETTES :: "(string \<times> ThemeTokens) list" where
  "SURPRISE_PALETTES =
     [(''ocean'', \<lparr>bg = ''#0b1220'', fg = ''#e7f5ff'', card = ''#0f1a2b'', muted = ''#8fb7e1'',
                  accent = ''#3ba3ff'', ring = ''#79b8ff''\<rparr>),
      (''forest'', \<lparr>bg = ''#0f1512'', fg = ''#e8ffef'', card = ''#112019'', muted = ''#86c19b'',
                   accent = ''#2fd477'', ring = ''#7ce9a6''\<rparr>),
      (''sunset'', \<lparr>bg = ''#1b1312'', fg = ''#fff0e6'', card = ''#221817'', muted = ''#ffb199'',
                   accent = ''#ff7a59'', ring = ''#ffbfa8''\<rparr>)]"

definition THEMES :: "(ThemeName \<times> ThemeTokens) list" where
  "THEMES =
     [(light, \<lparr>bg = ''#f7f7fb'', fg = ''#0f1222'', card = ''#ffffff'', muted = ''#6b7280'',
               accent = ''#6366f1'', ring = ''#a5b4fc''\<rparr>),
      (dark, \<lparr>bg = ''#0c0f16'', fg = ''#e5e7eb'', card = ''#111827'', muted = ''#9ca3af'',
              accent = ''#22d3ee'', ring = ''#67e8f9''\<rparr>),
      (grafit, \<lparr>bg = ''#0e0e10'', fg = ''#e8e8ea'', card = ''#151518'', muted = ''#9a9aa2'',
                accent = ''#c0c0c8'', ring = ''#d6d6de''\<rparr>)]"

text \<open>
  Reading a property of an object literal by a string key, \<open>obj[k]\<close>. The literal's own
  properties come first; a key it does not have is looked up in \<open>Object.prototype\<close>, which
  every object literal inherits from and whose properties are functions (for \<open>__proto__\<close>,
  the prototype object itself); any other key reads as \<open>undefined\<close>.
\<close>

datatype 'a js_prop = Own 'a | Inherited | Undefined

definition Object_prototype_keys :: "string list" where
  "Object_prototype_keys =
     [''constructor'', ''hasOwnProperty'', ''isPrototypeOf'', ''propertyIsEnumerable'',
      ''toLocaleString'', ''toString'', ''valueOf'', ''__proto__'', ''__defineGetter__'',
      ''__defineSetter__'', ''__lookupGetter__'', ''__lookupSetter__'']"

definition get_prop :: "(string \<times> 'a) list \<Rightarrow> string \<Rightarrow> 'a js_prop" where
  "get_prop obj k =
     (case map_of obj k of
        Some v \<Rightarrow> Own v
      | None \<Rightarrow> if k \<in> set Object_prototype_keys then Inherited else Undefined)"

text \<open>\<open>Boolean(v)\<close> on what a property read gives: objects and functions are truthy.\<close>

definition Boolean_prop :: "'a js_prop \<Rightarrow> bool" where
  "Boolean_prop v = (case v of Undefined \<Rightarrow> False | Own x \<Rightarrow> True | Inherited \<Rightarrow> True)"

text \<open>\<open>String(v)\<close> on a value that is a string or \<open>undefined\<close>.\<close>

definition String_of :: "string option \<Rightarrow> string" where
  "String_of v = (case v of None \<Rightarrow> ''undefined'' | Some s \<Rightarrow> s)"

text \<open>
  The style context: for each custom property of the root element, the argument last
  passed to \<open>root.style.setProperty\<close> for it; \<open>None\<close> is the argument \<open>undefined\<close>.

  The six calls at the end of \<open>applyTheme\<close>. Reading \<open>tokens.bg\<close> throws \<open>TypeError\<close> when
  \<open>tokens\<close> is \<open>undefined\<close>, and gives \<open>undefined\<close> when \<open>tokens\<close> is an inherited function
  or object, which has none of the six fields.
\<close>

type_synonym style = "string \<rightharpoonup> string option"

definition setProperties :: "ThemeTokens js_prop \<Rightarrow> style \<Rightarrow> js_error + style" where
  "setProperties tokens sty =
     (case tokens of
        Undefined \<Rightarrow> Inl TypeError
      | Own t \<Rightarrow>
          Inr (sty(''--bg'' \<mapsto> Some (bg t), ''--fg'' \<mapsto> Some (fg t), ''--card'' \<mapsto> Some (card t),
                    ''--muted'' \<mapsto> Some (muted t), ''--accent'' \<mapsto> Some (accent t),
                    ''--ring'' \<mapsto> Some (ring t)))
      | Inherited \<Rightarrow>
          Inr (sty(''--bg'' \<mapsto> None, ''--fg'' \<mapsto> None, ''--card'' \<mapsto> None,
                    ''--muted'' \<mapsto> None, ''--accent'' \<mapsto> None, ''--ring'' \<mapsto> None)))"

text \<open>
  \<open>applyTheme(theme)\<close> on the storage and the style context. Its first argument is the
  number \<open>Math.random()\<close> returns, which the runtime draws from \<open>[0, 1)\<close>. An error result
  stands for the exception leaving \<open>applyTheme\<close>.
\<close>

definition applyTheme ::
    "real \<Rightarrow> ThemeName \<Rightarrow> storage \<times> style \<Rightarrow> js_error + storage \<times> style" where
  "applyTheme random th env =
     (case getItem (fst env) ''launcher.surpriseName'' of
        Inl e \<Rightarrow> Inl e
      | Inr savedSurprise \<Rightarrow>
          (case (if th = surprise then
                   (let names = map (\<lambda>n. Some (fst n)) SURPRISE_PALETTES;
                        pick =
                          (if (case savedSurprise of
                                 None \<Rightarrow> False
                               | Some s \<Rightarrow> Boolean_str s \<and> Boolean_prop (get_prop SURPRISE_PALETTES s))
                           then savedSurprise
                           else js_get names \<lfloor>random * real (length names)\<rfloor>)
                    in case setItem (fst env) ''launcher.surpriseName'' (String_of pick) of
                         Inl e \<Rightarrow> Inl e
                       | Inr st' \<Rightarrow> Inr (st', get_prop SURPRISE_PALETTES (String_of pick)))
                 else
                   Inr (fst env,
                        (case map_of THEMES th of None \<Rightarrow> Undefined | Some t \<Rightarrow> Own t))) of
             Inl e \<Rightarrow> Inl e
           | Inr (st', tokens) \<Rightarrow>
               (case setProperties tokens (snd env) of
                  Inl e \<Rightarrow> Inl e
                | Inr sty \<Rightarrow> Inr (st', sty))))"

section \<open>Theorems\<close>

subsection \<open>Theme cycle\<close>

lemma onKey_theme:
  "theme (onKey key s) =
     (if key \<noteq> ''/'' \<and> toLowerCase key = ''t'' then ThemeToggle_next (theme s) else theme s)"
  by (simp add: onKey_def ThemeToggle_next_def)

lemma toLowerCase_t: "toLowerCase ''t'' = ''t''" "toLowerCase ''T'' = ''t''"
  by code_simp+

lemma theme_reachable_all: "theme_reachable start t"
proof -
  have 0: "theme_reachable s s" for s by (rule reach_start)
  have 1: "theme_reachable s (ThemeToggle_next s)" for s
    by (rule reach_click [OF 0])
  have 2: "theme_reachable s (ThemeToggle_next (ThemeToggle_next s))" for s
    by (rule reach_click [OF 1])
  have 3: "theme_reachable s (ThemeToggle_next (ThemeToggle_next (ThemeToggle_next s)))" for s
    by (rule reach_click [OF 2])
  note r = 0 [of start] 1 [of start] 2 [of start] 3 [of start]
  show ?thesis
    by (cases start; cases t; insert r; simp add: ThemeToggle_next_def)
qed

lemma ThemeName_exhaust4: "t = light \<or> t = dark \<or> t = grafit \<or> t = surprise"
  by (cases t) simp_all

text \<open>
  C5. The theme step is the four-state cycle light, dark, grafit, surprise, light, both
  on a click (\<open>ThemeToggle\<close>) and on the key \<open>t\<close> (\<open>onKey\<close>); a key press changes the
  theme by that step or not at all. Each of the four states is reached from each start
  state, and there is no theme state besides the four.
\<close>

theorem theme_cycle:
  "ThemeToggle_next light = dark \<and> ThemeToggle_next dark = grafit \<and>
   ThemeToggle_next grafit = surprise \<and> ThemeToggle_next surprise = light \<and>
   (\<forall>key s. theme (onKey key s) = ThemeToggle_next (theme s) \<or> theme (onKey key s) = theme s) \<and>
   (\<forall>s. theme (onKey ''t'' s) = ThemeToggle_next (theme s) \<and>
        theme (onKey ''T'' s) = ThemeToggle_next (theme s)) \<and>
   (\<forall>start t. theme_reachable start t \<and>
      (t = light \<or> t = dark \<or> t = grafit \<or> t = surprise))"
proof -
  have step: "ThemeToggle_next light = dark \<and> ThemeToggle_next dark = grafit \<and>
      ThemeToggle_next grafit = surprise \<and> ThemeToggle_next surprise = light"
    by (simp add: ThemeToggle_next_def)
  have keys: "\<forall>key s. theme (onKey key s) = ThemeToggle_next (theme s) \<or> theme (onKey key s) = theme s"
    by (simp add: onKey_theme)
  have t: "\<forall>s. theme (onKey ''t'' s) = ThemeToggle_next (theme s) \<and>
        theme (onKey ''T'' s) = ThemeToggle_next (theme s)"
    by (simp add: onKey_theme toLowerCase_t)
  from step keys t ThemeName_exhaust4 theme_reachable_all show ?thesis by blast
qed

subsection \<open>Saving an edited tile\<close>

text \<open>
  C9. Saving an edited tile keeps the length of the collection and the id at every
  position; the tile at a position is replaced by the edited tile exactly when its id is
  the edited tile's id, and is otherwise the tile that was there.
\<close>

theorem onSave_edit_frame:
  "length (onSave_edit updated prev) = length prev \<and>
   map tile_id (onSave_edit updated prev) = map tile_id prev \<and>
   (\<forall>k < length prev.
      onSave_edit updated prev ! k =
        (if tile_id (prev ! k) = tile_id updated then updated else prev ! k))"
  by (simp add: onSave_edit_def)

theorem onSave_edit_frame_witness:
  "(1::nat) < length DEFAULT_TILES \<and>
   onSave_edit ((DEFAULT_TILES ! 1)\<lparr>title := ''Board''\<rparr>) DEFAULT_TILES ! 1 =
     (DEFAULT_TILES ! 1)\<lparr>title := ''Board''\<rparr> \<and>
   onSave_edit ((DEFAULT_TILES ! 1)\<lparr>title := ''Board''\<rparr>) DEFAULT_TILES ! 0 = DEFAULT_TILES ! 0"
  using onSave_edit_frame [of "(DEFAULT_TILES ! 1)\<lparr>title := ''Board''\<rparr>" DEFAULT_TILES]
  by (simp add: DEFAULT_TILES_def)

subsection \<open>Adding a tile puts it first\<close>

text \<open>
  C10. After \<open>addTile\<close> the working collection is the new tile followed by the previous
  collection: its head is the new tile, its tail the previous collection, its length one
  more.
\<close>

theorem addTile_prepends:
  "local_tiles (addTile rnd m) = new_tile rnd m # local_tiles m \<and>
   hd (local_tiles (addTile rnd m)) = new_tile rnd m \<and>
   tl (local_tiles (addTile rnd m)) = local_tiles m \<and>
   length (local_tiles (addTile rnd m)) = length (local_tiles m) + 1"
  by (simp add: addTile_def)

subsection \<open>Reordering\<close>

lemma move_updater_eq:
  assumes "i < length prev"
  shows "move_updater i d prev =
     (let j = int i + dir_val d
      in if 0 \<le> j \<and> j < int (length prev)
         then map Some (prev[i := prev ! nat j, nat j := prev ! i])
         else map Some prev)"
  using assms
  by (auto simp: move_updater_def Let_def js_get_def js_set_def map_update)

text \<open>
  C7. For the index \<open>i\<close> of a tile, \<open>move(i, dir)\<close> exchanges the tiles at \<open>i\<close> and
  \<open>i + dir\<close> when \<open>i + dir\<close> is an index of the collection and returns the collection as
  it was otherwise. The length stays, every other position keeps its tile, moving the
  first tile down exchanges it with the second, and moving the last tile down changes
  nothing.
\<close>

theorem move_swap:
  assumes "i < length prev"
  shows "move_updater i d prev =
     (let j = int i + dir_val d
      in if 0 \<le> j \<and> j < int (length prev)
         then map Some (prev[i := prev ! nat j, nat j := prev ! i])
         else map Some prev) \<and>
   length (move_updater i d prev) = length prev \<and>
   (\<forall>k < length prev. k \<noteq> i \<and> int k \<noteq> int i + dir_val d \<longrightarrow>
      move_updater i d prev ! k = Some (prev ! k)) \<and>
   (i = 0 \<and> 2 \<le> length prev \<longrightarrow>
      move_updater i Down prev = map Some (prev[0 := prev ! 1, 1 := prev ! 0])) \<and>
   (i = length prev - 1 \<longrightarrow> move_updater i Down prev = map Some prev)"
proof -
  have len: "length (move_updater i d prev) = length prev"
    using assms by (simp add: move_updater_eq Let_def)
  have others: "\<forall>k < length prev. k \<noteq> i \<and> int k \<noteq> int i + dir_val d \<longrightarrow>
      move_updater i d prev ! k = Some (prev ! k)"
    using assms by (auto simp: move_updater_eq Let_def)
  have first_down: "i = 0 \<and> 2 \<le> length prev \<longrightarrow>
      move_updater i Down prev = map Some (prev[0 := prev ! 1, 1 := prev ! 0])"
    using assms by (auto simp: move_updater_eq Let_def dir_val_def)
  have last_down: "i = length prev - 1 \<longrightarrow> move_updater i Down prev = map Some prev"
    using assms by (auto simp: move_updater_eq Let_def dir_val_def)
  from move_updater_eq [OF assms] len others first_down last_down show ?thesis by blast
qed

theorem move_swap_witness:
  "(0::nat) < length DEFAULT_TILES \<and>
   move_updater 0 Down DEFAULT_TILES =
     map Some [DEFAULT_TILES ! 1, DEFAULT_TILES ! 0, DEFAULT_TILES ! 2] \<and>
   move_updater 0 Down DEFAULT_TILES ! 2 = Some (DEFAULT_TILES ! 2)"
  using move_swap [of 0 DEFAULT_TILES Down]
  by (simp add: DEFAULT_TILES_def dir_val_def)

text \<open>
  The index has to be a tile's: one past the last tile, moving up, \<open>j\<close> is an index, and
  the assignment reads \<open>undefined\<close> at \<open>i\<close>, extends the array and leaves a hole where the
  last tile was.
\<close>

lemma move_updater_past_end:
  "move_updater 3 Up DEFAULT_TILES =
     [Some (DEFAULT_TILES ! 0), Some (DEFAULT_TILES ! 1), None, Some (DEFAULT_TILES ! 2)]"
  by (simp add: move_updater_def DEFAULT_TILES_def dir_val_def js_get_def js_set_def)

subsection \<open>Search filter\<close>














lemma is_space_white: "is_space c = white_space c"
proof -
  have "\<forall>c. is_space c = white_space c" by code_simp
  then show ?thesis by blast
qed

lemma is_space_eq: "is_space = white_space"
  by (rule ext) (rule is_space_white)











subsection \<open>The fields of a new tile\<close>

lemma split_str_not_Nil: "split_str sep s \<noteq> []"
  by (induction s) (auto split: list.splits)

lemma join_split_str: "join_str sep (split_str sep s) = s"
proof (induction s)
  case Nil
  then show ?case by simp
next
  case (Cons c cs)
  obtain p ps where ps: "split_str sep cs = p # ps"
    using split_str_not_Nil [of sep cs] by (cases "split_str sep cs") auto
  with Cons show ?case by (cases ps) auto
qed

lemma split_str_no_sep: "p \<in> set (split_str sep s) \<Longrightarrow> sep \<notin> set p"
  by (induction s arbitrary: p) (auto split: if_splits list.splits)

lemma trim_decomp:
  "\<exists>a b. list_all is_space a \<and> list_all is_space b \<and> p = a @ trim p @ b"
proof -
  let ?r = "dropWhile is_space p"
  have 1: "p = takeWhile is_space p @ ?r" by simp
  have 2: "rev ?r = takeWhile is_space (rev ?r) @ dropWhile is_space (rev ?r)" by simp
  then have "?r = rev (dropWhile is_space (rev ?r)) @ rev (takeWhile is_space (rev ?r))"
    by (metis rev_append rev_rev_ident)
  then have "p = takeWhile is_space p @ trim p @ rev (takeWhile is_space (rev ?r))"
    using 1 by (simp add: trim_def)
  moreover have "list_all is_space (takeWhile is_space p)"
    by (auto simp: list_all_iff dest: set_takeWhileD)
  moreover have "list_all is_space (rev (takeWhile is_space (rev ?r)))"
    by (auto simp: list_all_iff dest: set_takeWhileD)
  ultimately show ?thesis by blast
qed

lemma trim_ends: "trim p \<noteq> [] \<Longrightarrow> \<not> is_space (hd (trim p)) \<and> \<not> is_space (last (trim p))"
proof -
  assume ne: "trim p \<noteq> []"
  let ?r = "dropWhile is_space p"
  let ?t = "dropWhile is_space (rev ?r)"
  from ne have t: "?t \<noteq> []" by (simp add: trim_def)
  then have l: "\<not> is_space (hd ?t)" by (rule hd_dropWhile)
  have lastt: "last (trim p) = hd ?t" using t by (simp add: trim_def last_rev)
  have r: "?r \<noteq> []"
  proof
    assume "?r = []"
    with t show False by simp
  qed
  then have h: "\<not> is_space (hd ?r)" by (rule hd_dropWhile)
  obtain a where "rev ?r = a @ ?t" by (metis takeWhile_dropWhile_id)
  then have "?r = trim p @ rev a" by (metis rev_append rev_rev_ident trim_def)
  with ne have "hd ?r = hd (trim p)" by (metis hd_append2)
  with h l lastt show ?thesis by simp
qed

text \<open>
  C8. The tile \<open>addTile\<close> creates has the placeholder title when the title input is
  empty and the title input itself otherwise, the placeholder URL when the URL input is
  empty and the URL input itself otherwise, and as tags the pieces of the tags input
  between its commas, each trimmed, the empty ones dropped. The pieces are those of the
  input: there is at least one, joined by commas they give the input back, and none holds
  a comma. A trimmed piece is the piece without the white space at its two ends: the
  piece is white space, the trimmed piece, white space, and the trimmed piece is empty or
  starts and ends with a character that is no white space.
\<close>

theorem addTile_fields:
  "(let t = hd (local_tiles (addTile rnd m)) in
     title t = (if form_title m = [] then ''Untitled'' else form_title m) \<and>
     url t = (if form_url m = [] then ''https://example.com'' else form_url m) \<and>
     tags t = Some (filter (\<lambda>s. s \<noteq> []) (map trim (split_str CHR '','' (form_tags m))))) \<and>
   split_str CHR '','' (form_tags m) \<noteq> [] \<and>
   join_str CHR '','' (split_str CHR '','' (form_tags m)) = form_tags m \<and>
   (\<forall>p \<in> set (split_str CHR '','' (form_tags m)).
      CHR '','' \<notin> set p \<and>
      (\<exists>a b. list_all white_space a \<and> list_all white_space b \<and> p = a @ trim p @ b) \<and>
      (trim p \<noteq> [] \<longrightarrow> \<not> white_space (hd (trim p)) \<and> \<not> white_space (last (trim p))))"
proof -
  have f: "let t = hd (local_tiles (addTile rnd m)) in
     title t = (if form_title m = [] then ''Untitled'' else form_title m) \<and>
     url t = (if form_url m = [] then ''https://example.com'' else form_url m) \<and>
     tags t = Some (filter (\<lambda>s. s \<noteq> []) (map trim (split_str CHR '','' (form_tags m))))"
    by (simp add: addTile_def new_tile_def Boolean_str_def [abs_def])
  show ?thesis
    using f split_str_not_Nil join_split_str split_str_no_sep
      trim_decomp [unfolded is_space_eq] trim_ends [unfolded is_space_eq]
    by blast
qed

theorem addTile_fields_witness:
  "(let t = hd (local_tiles (addTile ''k3x9''
              ((ManageTilesModal_init DEFAULT_TILES)\<lparr>form_tags := ''work, , planning ''\<rparr>))) in
     title t = ''Untitled'' \<and> url t = ''https://example.com'' \<and>
     tags t = Some [''work'', ''planning'']) \<and>
   (let t = hd (local_tiles (addTile ''k3x9''
              ((ManageTilesModal_init DEFAULT_TILES)
                 \<lparr>form_title := ''Mail'', form_url := ''https://mail.example'',
                  form_tags := ''work,'' @ [CHR 0xA0, CHR 0x09]\<rparr>))) in
     title t = ''Mail'' \<and> url t = ''https://mail.example'' \<and> tags t = Some [''work'']) \<and>
   '' planning '' \<in> set (split_str CHR '','' ''work, , planning '') \<and>
   trim '' planning '' = ''planning''"
proof -
  have 1: "split_str CHR '','' ''work, , planning '' = [''work'', '' '', '' planning '']"
    "split_str CHR '','' (''work,'' @ [CHR 0xA0, CHR 0x09]) = [''work'', [CHR 0xA0, CHR 0x09]]"
    by code_simp+
  have 2: "trim ''work'' = ''work''" "trim '' '' = []" "trim '' planning '' = ''planning''"
    "trim [CHR 0xA0, CHR 0x09] = []"
    by code_simp+
  show ?thesis
    using addTile_fields [of "''k3x9''"
        "(ManageTilesModal_init DEFAULT_TILES)\<lparr>form_tags := ''work, , planning ''\<rparr>"]
      addTile_fields [of "''k3x9''"
        "(ManageTilesModal_init DEFAULT_TILES)
           \<lparr>form_title := ''Mail'', form_url := ''https://mail.example'',
            form_tags := ''work,'' @ [CHR 0xA0, CHR 0x09]\<rparr>"]
    by (simp add: ManageTilesModal_init_def 1 2)
qed

subsection \<open>Tile ids\<close>

lemma new_tile_id:
  "tile_id (new_tile rnd m) =
     slugify (if form_title m = [] then ''tile-'' else form_title m) @ ''-'' @ rnd"
  by (simp add: new_tile_def Boolean_str_def)

text \<open>
  Two slugs, step by step: of a title with a capital, an accented letter, white space and
  signs, and of the text that stands in for an empty title.
\<close>

lemma slugify_cafe: "slugify (''Caf'' @ [CHR 0xC9] @ '' & Mail!'') = ''cafe-mail''"
proof -
  have lower: "toLowerCase (''Caf'' @ [CHR 0xC9] @ '' & Mail!'') = ''caf'' @ [CHR 0xE9] @ '' & mail!''"
    by code_simp
  have nfkd: "normalize_NFKD (''caf'' @ [CHR 0xE9] @ '' & mail!'') =
      [99, 97, 102, 101, 0x301, 32, 38, 32, 109, 97, 105, 108, 33]"
    by (simp add: normalize_NFKD_def NFKD_unit_def NFKD_table_def)
  have rest: "map char_of (strip_dashes (dash_runs (filter (\<lambda>u. \<not> is_combining_mark u)
      [99, 97, 102, 101, 0x301, 32, 38, 32, 109, 97, 105, 108, 33]))) = ''cafe-mail''"
    by code_simp
  show ?thesis unfolding slugify_def lower nfkd rest ..
qed

lemma slugify_tile: "slugify ''tile-'' = ''tile''"
proof -
  have lower: "toLowerCase ''tile-'' = ''tile-''"
    by code_simp
  have nfkd: "normalize_NFKD ''tile-'' = [116, 105, 108, 101, 45]"
    by (simp add: normalize_NFKD_def NFKD_unit_def NFKD_table_def)
  have rest: "map char_of (strip_dashes (dash_runs (filter (\<lambda>u. \<not> is_combining_mark u)
      [116, 105, 108, 101, 45]))) = ''tile''"
    by code_simp
  show ?thesis unfolding slugify_def lower nfkd rest ..
qed

text \<open>
  C6, as the code has it. The id of a new tile is the slug of the title input, or of the
  text \<open>tile-\<close> when the title input is empty, followed by a dash and the suffix the
  runtime drew; nothing compares it with the ids in the collection. So adding a tile to a
  collection with pairwise distinct ids gives pairwise distinct ids exactly when the new
  id is not in the collection yet, and two tiles added in sequence with the same title
  input get distinct ids exactly when their suffixes differ.
\<close>

theorem addTile_ids:
  assumes "distinct (map tile_id (local_tiles m))"
  shows "tile_id (hd (local_tiles (addTile rnd m))) =
           slugify (if form_title m = [] then ''tile-'' else form_title m) @ ''-'' @ rnd \<and>
         (distinct (map tile_id (local_tiles (addTile rnd m))) \<longleftrightarrow>
            tile_id (hd (local_tiles (addTile rnd m))) \<notin> set (map tile_id (local_tiles m))) \<and>
         (let m1 = addTile r1 (m\<lparr>form_title := ttl\<rparr>);
              m2 = addTile r2 (m1\<lparr>form_title := ttl\<rparr>)
          in tl (tl (local_tiles m2)) = local_tiles m \<and>
             tile_id (hd (tl (local_tiles m2))) =
               slugify (if ttl = [] then ''tile-'' else ttl) @ ''-'' @ r1 \<and>
             tile_id (hd (local_tiles m2)) =
               slugify (if ttl = [] then ''tile-'' else ttl) @ ''-'' @ r2 \<and>
             (tile_id (hd (local_tiles m2)) \<noteq> tile_id (hd (tl (local_tiles m2))) \<longleftrightarrow> r1 \<noteq> r2))"
  using assms by (auto simp: addTile_def new_tile_id Let_def)

text \<open>
  C6 as stated fails when the runtime draws the same suffix twice: the dialog over the
  default collection, the title \<open>Mail\<close> entered twice, the suffix \<open>i\<close> both times
  (\<open>Math.random()\<close> returning 0.5, whose base 36 text is \<open>0.i\<close>). After the first add
  the ids are distinct, after the second they are not.
\<close>

theorem addTile_ids_counterexample:
  "distinct (map tile_id (local_tiles (addTile ''i'' ((ManageTilesModal_init DEFAULT_TILES)\<lparr>form_title := ''Mail''\<rparr>)))) \<and>
   \<not> distinct (map tile_id (local_tiles
        (addTile ''i'' ((addTile ''i'' ((ManageTilesModal_init DEFAULT_TILES)\<lparr>form_title := ''Mail''\<rparr>))\<lparr>form_title := ''Mail''\<rparr>))))"
  by (simp add: addTile_def new_tile_id ManageTilesModal_init_def DEFAULT_TILES_def)

theorem addTile_ids_witness:
  "distinct (map tile_id DEFAULT_TILES) \<and>
   map tile_id (local_tiles (addTile ''k3x9''
       ((ManageTilesModal_init DEFAULT_TILES)\<lparr>form_title := ''Caf'' @ [CHR 0xC9] @ '' & Mail!''\<rparr>))) =
     [''cafe-mail-k3x9'', ''calendar'', ''dashboard'', ''todo''] \<and>
   distinct (map tile_id (local_tiles (addTile ''k3x9''
       ((ManageTilesModal_init DEFAULT_TILES)\<lparr>form_title := ''Caf'' @ [CHR 0xC9] @ '' & Mail!''\<rparr>)))) \<and>
   tile_id (hd (local_tiles (addTile ''k3x9'' (ManageTilesModal_init DEFAULT_TILES)))) = ''tile-k3x9''"
proof -
  let ?m = "(ManageTilesModal_init DEFAULT_TILES)\<lparr>form_title := ''Caf'' @ [CHR 0xC9] @ '' & Mail!''\<rparr>"
  have d: "distinct (map tile_id (local_tiles ?m))"
    "distinct (map tile_id (local_tiles (ManageTilesModal_init DEFAULT_TILES)))"
    by (simp_all add: ManageTilesModal_init_def DEFAULT_TILES_def)
  note s = slugify_cafe [simplified] slugify_tile
  note new = addTile_ids [OF d(1), of "''k3x9''"]
  show ?thesis
    using new [THEN conjunct1] new [THEN conjunct2, THEN conjunct1]
      addTile_ids [OF d(2), of "''k3x9''", THEN conjunct1]
    by (simp add: ManageTilesModal_init_def DEFAULT_TILES_def addTile_def new_tile_id s)
qed

subsection \<open>The storage hook\<close>

lemma usePersistentState_init_eq:
  assumes "JSON_parse [] = Inl SyntaxError"
  shows "usePersistentState_init JSON_parse st key initial =
     Inr (case getItem st key of
            Inl e \<Rightarrow> initial
          | Inr None \<Rightarrow> initial
          | Inr (Some raw) \<Rightarrow> (case JSON_parse raw of Inl e \<Rightarrow> initial | Inr v \<Rightarrow> v))"
  using assms
  by (auto simp: usePersistentState_init_def Boolean_str_def split: sum.splits option.splits)

text \<open>
  C2. Given that the runtime's parser rejects the empty text, as \<open>JSON.parse\<close> does:
  for every key and initial value the initializer returns a value and never an error;
  it returns the parsed value when the slot holds a text that parses, and the initial
  value when the slot is absent, when its text does not parse, and when reading the
  storage throws.
\<close>

theorem usePersistentState_init_spec:
  assumes "JSON_parse [] = Inl SyntaxError"
  shows "(\<forall>raw v. getItem st key = Inr (Some raw) \<and> JSON_parse raw = Inr v \<longrightarrow>
            usePersistentState_init JSON_parse st key initial = Inr v) \<and>
         (getItem st key = Inr None \<longrightarrow>
            usePersistentState_init JSON_parse st key initial = Inr initial) \<and>
         (\<forall>raw e. getItem st key = Inr (Some raw) \<and> JSON_parse raw = Inl e \<longrightarrow>
            usePersistentState_init JSON_parse st key initial = Inr initial) \<and>
         (\<forall>e. getItem st key = Inl e \<longrightarrow>
            usePersistentState_init JSON_parse st key initial = Inr initial) \<and>
         (\<exists>v. usePersistentState_init JSON_parse st key initial = Inr v)"
  by (simp add: usePersistentState_init_eq [of JSON_parse, OF assms])

lemma JSON_ThemeName_roundtrip: "JSON_parse_ThemeName (JSON_stringify_ThemeName t) = Inr t"
  by (cases t)
     (simp_all add: JSON_parse_ThemeName_def JSON_stringify_ThemeName_def ThemeName_string_def)

lemma JSON_parse_ThemeName_empty: "JSON_parse_ThemeName [] = Inl SyntaxError"
  by (simp add: JSON_parse_ThemeName_def JSON_stringify_ThemeName_def)

theorem usePersistentState_init_spec_witness:
  "JSON_parse_ThemeName [] = Inl SyntaxError \<and>
   usePersistentState_init JSON_parse_ThemeName
     \<lparr>items = [(''launcher.theme'', JSON_stringify_ThemeName grafit)], quota = 5000000, enabled = True\<rparr>
     ''launcher.theme'' dark = Inr grafit \<and>
   usePersistentState_init JSON_parse_ThemeName
     \<lparr>items = [(''launcher.theme'', ''{grafit'')], quota = 5000000, enabled = True\<rparr>
     ''launcher.theme'' dark = Inr dark \<and>
   usePersistentState_init JSON_parse_ThemeName
     \<lparr>items = [], quota = 5000000, enabled = True\<rparr> ''launcher.theme'' dark = Inr dark \<and>
   usePersistentState_init JSON_parse_ThemeName
     \<lparr>items = [(''launcher.theme'', JSON_stringify_ThemeName grafit)], quota = 5000000, enabled = False\<rparr>
     ''launcher.theme'' dark = Inr dark"
proof -
  have bad: "JSON_parse_ThemeName ''{grafit'' = Inl SyntaxError"
    by (simp add: JSON_parse_ThemeName_def JSON_stringify_ThemeName_def ThemeName_string_def)
  note spec = usePersistentState_init_spec [of JSON_parse_ThemeName, OF JSON_parse_ThemeName_empty]
  show ?thesis
    using spec [of "\<lparr>items = [(''launcher.theme'', JSON_stringify_ThemeName grafit)], quota = 5000000, enabled = True\<rparr>" "''launcher.theme''" dark]
      spec [of "\<lparr>items = [(''launcher.theme'', ''{grafit'')], quota = 5000000, enabled = True\<rparr>" "''launcher.theme''" dark]
      spec [of "\<lparr>items = [], quota = 5000000, enabled = True\<rparr>" "''launcher.theme''" dark]
      spec [of "\<lparr>items = [(''launcher.theme'', JSON_stringify_ThemeName grafit)], quota = 5000000, enabled = False\<rparr>" "''launcher.theme''" dark]
    by (simp add: getItem_def JSON_ThemeName_roundtrip JSON_parse_ThemeName_empty bad)
qed

lemma getItem_setItem:
  assumes "setItem st key v = Inr st'"
  shows "getItem st' key = Inr (Some v)"
  using assms
  by (auto simp: setItem_def getItem_def Let_def update_conv' split: if_splits)

text \<open>
  C3, as the code has it. The effect swallows a failed write, so the round trip needs the
  write to succeed. Given the parser rejects the empty text and gives \<open>x\<close> back from the
  text of \<open>x\<close>: when the storage takes the text of \<open>x\<close> under \<open>key\<close>, the first
  initializer returns, the effect leaves the storage with that write, and a fresh
  initializer on it returns \<open>x\<close> whatever its default is.
\<close>

theorem usePersistentState_roundtrip:
  assumes "JSON_parse [] = Inl SyntaxError"
    and "JSON_parse (JSON_stringify x) = Inr x"
    and "setItem st key (JSON_stringify x) = Inr st'"
  shows "(\<exists>v. usePersistentState_init JSON_parse st key x = Inr v) \<and>
         usePersistentState_effect JSON_stringify st key x = Inr st' \<and>
         usePersistentState_init JSON_parse st' key dflt = Inr x"
proof -
  have "getItem st' key = Inr (Some (JSON_stringify x))"
    using assms(3) by (rule getItem_setItem)
  then have "usePersistentState_init JSON_parse st' key dflt = Inr x"
    by (simp add: usePersistentState_init_eq [of JSON_parse, OF assms(1)] assms(2))
  moreover have "usePersistentState_effect JSON_stringify st key x = Inr st'"
    by (simp add: usePersistentState_effect_def assms(3))
  moreover have "\<exists>v. usePersistentState_init JSON_parse st key x = Inr v"
    by (simp add: usePersistentState_init_eq [of JSON_parse, OF assms(1)])
  ultimately show ?thesis by blast
qed

text \<open>
  C3 as stated fails on a storage that refuses the write: with an empty storage of quota
  0 the initializer returns \<open>surprise\<close>, the effect for \<open>surprise\<close> leaves the storage
  empty, and a fresh initializer with default \<open>dark\<close> returns \<open>dark\<close>.
\<close>

theorem usePersistentState_roundtrip_counterexample:
  "usePersistentState_init JSON_parse_ThemeName \<lparr>items = [], quota = 0, enabled = True\<rparr>
     ''launcher.theme'' surprise = Inr surprise \<and>
   usePersistentState_effect JSON_stringify_ThemeName \<lparr>items = [], quota = 0, enabled = True\<rparr>
     ''launcher.theme'' surprise = Inr \<lparr>items = [], quota = 0, enabled = True\<rparr> \<and>
   usePersistentState_init JSON_parse_ThemeName \<lparr>items = [], quota = 0, enabled = True\<rparr>
     ''launcher.theme'' dark = Inr dark \<and>
   dark \<noteq> surprise"
  by (simp add: usePersistentState_init_def usePersistentState_effect_def getItem_def setItem_def
      usage_def JSON_stringify_ThemeName_def)

theorem usePersistentState_roundtrip_witness:
  "JSON_parse_ThemeName [] = Inl SyntaxError \<and>
   JSON_parse_ThemeName (JSON_stringify_ThemeName surprise) = Inr surprise \<and>
   setItem \<lparr>items = [(''launcher.theme'', JSON_stringify_ThemeName dark)], quota = 5000000, enabled = True\<rparr>
     ''launcher.theme'' (JSON_stringify_ThemeName surprise) =
     Inr \<lparr>items = [(''launcher.theme'', JSON_stringify_ThemeName surprise)], quota = 5000000, enabled = True\<rparr> \<and>
   usePersistentState_init JSON_parse_ThemeName
     \<lparr>items = [(''launcher.theme'', JSON_stringify_ThemeName surprise)], quota = 5000000, enabled = True\<rparr>
     ''launcher.theme'' dark = Inr surprise"
proof -
  have w: "setItem \<lparr>items = [(''launcher.theme'', JSON_stringify_ThemeName dark)], quota = 5000000, enabled = True\<rparr>
     ''launcher.theme'' (JSON_stringify_ThemeName surprise) =
     Inr \<lparr>items = [(''launcher.theme'', JSON_stringify_ThemeName surprise)], quota = 5000000, enabled = True\<rparr>"
    by (simp add: setItem_def usage_def JSON_stringify_ThemeName_def ThemeName_string_def)
  show ?thesis
    using usePersistentState_roundtrip [of JSON_parse_ThemeName JSON_stringify_ThemeName surprise,
        OF JSON_parse_ThemeName_empty JSON_ThemeName_roundtrip w, of dark]
      JSON_parse_ThemeName_empty JSON_ThemeName_roundtrip w
    by simp
qed

subsection \<open>Theme resolver\<close>

lemma setItem_same:
  assumes "enabled st" "usage (items st) \<le> quota st" "map_of (items st) k = Some v"
  shows "setItem st k v = Inr st"
  using assms by (simp add: setItem_def update_triv Let_def)

text \<open>
  C1 at a sticky record that names a property every object inherits. The stored name
  \<open>constructor\<close> is no palette, yet \<open>SURPRISE_PALETTES["constructor"]\<close> is the inherited
  constructor function and truthy: whatever number is drawn, \<open>applyTheme\<close> keeps
  \<open>constructor\<close> as the sticky name, takes that function for the tokens and passes its six
  absent fields, \<open>undefined\<close>, to the style context. No palette of the fixed set is
  applied and no palette name is stored.
\<close>

theorem applyTheme_inherited_key:
  "applyTheme random surprise
     (\<lparr>items = [(''launcher.surpriseName'', ''constructor'')], quota = 5000000, enabled = True\<rparr>, sty) =
   Inr (\<lparr>items = [(''launcher.surpriseName'', ''constructor'')], quota = 5000000, enabled = True\<rparr>,
        sty(''--bg'' \<mapsto> None, ''--fg'' \<mapsto> None, ''--card'' \<mapsto> None,
            ''--muted'' \<mapsto> None, ''--accent'' \<mapsto> None, ''--ring'' \<mapsto> None)) \<and>
   map_of SURPRISE_PALETTES ''constructor'' = None"
  by (simp add: applyTheme_def getItem_def setItem_def usage_def Boolean_opt_def Boolean_str_def
      Boolean_prop_def get_prop_def String_of_def SURPRISE_PALETTES_def Object_prototype_keys_def
      setProperties_def)

text \<open>
  What does hold of the surprise theme, on a storage that is enabled and within its
  quota. When the sticky record names a palette of the fixed set, \<open>applyTheme\<close> applies
  the six tokens of exactly that palette and leaves the storage as it is, whatever number
  is drawn; a second call on the result changes nothing.
\<close>

theorem applyTheme_sticky:
  assumes "enabled st" and "usage (items st) \<le> quota st"
    and "map_of (items st) ''launcher.surpriseName'' = Some name"
    and "map_of SURPRISE_PALETTES name = Some toks"
  shows "\<exists>sty'. setProperties (Own toks) sty = Inr sty' \<and>
           applyTheme random surprise (st, sty) = Inr (st, sty') \<and>
           applyTheme random' surprise (st, sty') = Inr (st, sty') \<and>
           sty' ''--bg'' = Some (Some (bg toks)) \<and> sty' ''--fg'' = Some (Some (fg toks)) \<and>
           sty' ''--card'' = Some (Some (card toks)) \<and> sty' ''--muted'' = Some (Some (muted toks)) \<and>
           sty' ''--accent'' = Some (Some (accent toks)) \<and> sty' ''--ring'' = Some (Some (ring toks))"
proof -
  from assms(4) have ne: "name \<noteq> []"
    by (auto simp: SURPRISE_PALETTES_def split: if_splits)
  have hit: "Boolean_str name \<and> Boolean_prop (get_prop SURPRISE_PALETTES name)"
    using ne assms(4) by (simp add: Boolean_str_def Boolean_prop_def get_prop_def)
  have own: "get_prop SURPRISE_PALETTES name = Own toks"
    using assms(4) by (simp add: get_prop_def)
  have w: "setItem st ''launcher.surpriseName'' name = Inr st"
    using assms(1-3) by (rule setItem_same)
  have a: "applyTheme r surprise (st, s) =
      (case setProperties (Own toks) s of Inl e \<Rightarrow> Inl e | Inr s' \<Rightarrow> Inr (st, s'))" for r s
    using hit by (simp add: applyTheme_def getItem_def assms(1,3) Let_def w own String_of_def)
  obtain sty' where s: "setProperties (Own toks) sty = Inr sty'"
    by (simp add: setProperties_def)
  then have again: "setProperties (Own toks) sty' = Inr sty'"
    by (auto simp: setProperties_def)
  from s have vals: "sty' ''--bg'' = Some (Some (bg toks)) \<and> sty' ''--fg'' = Some (Some (fg toks)) \<and>
           sty' ''--card'' = Some (Some (card toks)) \<and> sty' ''--muted'' = Some (Some (muted toks)) \<and>
           sty' ''--accent'' = Some (Some (accent toks)) \<and> sty' ''--ring'' = Some (Some (ring toks))"
    by (auto simp: setProperties_def)
  from s again vals show ?thesis by (simp add: a)
qed

theorem applyTheme_sticky_witness:
  "applyTheme (1/2) surprise
     (\<lparr>items = [(''launcher.surpriseName'', ''forest'')], quota = 5000000, enabled = True\<rparr>, Map.empty)
     = Inr (\<lparr>items = [(''launcher.surpriseName'', ''forest'')], quota = 5000000, enabled = True\<rparr>,
            [''--bg'' \<mapsto> Some ''#0f1512'', ''--fg'' \<mapsto> Some ''#e8ffef'', ''--card'' \<mapsto> Some ''#112019'',
             ''--muted'' \<mapsto> Some ''#86c19b'', ''--accent'' \<mapsto> Some ''#2fd477'',
             ''--ring'' \<mapsto> Some ''#7ce9a6''])"
proof -
  let ?st = "\<lparr>items = [(''launcher.surpriseName'', ''forest'')], quota = 5000000, enabled = True\<rparr>"
  let ?t = "\<lparr>bg = ''#0f1512'', fg = ''#e8ffef'', card = ''#112019'', muted = ''#86c19b'',
             accent = ''#2fd477'', ring = ''#7ce9a6''\<rparr>"
  have 1: "enabled ?st" by simp
  have 2: "usage (items ?st) \<le> quota ?st" by (simp add: usage_def)
  have 3: "map_of (items ?st) ''launcher.surpriseName'' = Some ''forest''" by simp
  have 4: "map_of SURPRISE_PALETTES ''forest'' = Some ?t" by (simp add: SURPRISE_PALETTES_def)
  from applyTheme_sticky [OF 1 2 3 4, of Map.empty "1/2" "1/2"]
  show ?thesis by (auto simp: setProperties_def)
qed

lemma floor_pick:
  assumes "0 \<le> (r::real)" "r < 1"
  shows "\<lfloor>r * 3\<rfloor> = 0 \<or> \<lfloor>r * 3\<rfloor> = 1 \<or> \<lfloor>r * 3\<rfloor> = 2"
proof -
  have "0 \<le> \<lfloor>r * 3\<rfloor>" using assms by simp
  moreover have "\<lfloor>r * 3\<rfloor> < 3" using assms by (simp add: floor_less_iff)
  ultimately show ?thesis by linarith
qed

lemma pick_names:
  assumes "0 \<le> (r::real)" "r < 1"
  shows "\<exists>name toks.
      js_get (map (\<lambda>n. Some (fst n)) SURPRISE_PALETTES)
        \<lfloor>r * real (length (map (\<lambda>n. Some (fst n)) SURPRISE_PALETTES))\<rfloor> = Some name \<and>
      (name, toks) \<in> set SURPRISE_PALETTES \<and> map_of SURPRISE_PALETTES name = Some toks"
proof -
  have len: "real (length (map (\<lambda>n. Some (fst n)) SURPRISE_PALETTES)) = 3"
    by (simp add: SURPRISE_PALETTES_def)
  from floor_pick [OF assms] consider "\<lfloor>r * 3\<rfloor> = 0" | "\<lfloor>r * 3\<rfloor> = 1" | "\<lfloor>r * 3\<rfloor> = 2"
    by blast
  then show ?thesis
  proof cases
    case 1
    then show ?thesis
      unfolding len by (simp add: js_get_def SURPRISE_PALETTES_def)
  next
    case 2
    then show ?thesis
      unfolding len by (simp add: js_get_def SURPRISE_PALETTES_def)
  next
    case 3
    then show ?thesis
      unfolding len by (simp add: js_get_def SURPRISE_PALETTES_def)
  qed
qed

text \<open>
  When the sticky record is absent, empty, or a name that is neither a palette nor an
  inherited property, the number drawn from \<open>[0, 1)\<close> selects a palette of the fixed
  set; provided the storage has room for each of the three names, that palette's name is
  stored in the sticky record and its tokens are applied.
\<close>

theorem applyTheme_fresh_pick:
  assumes "enabled st" and "0 \<le> random" and "random < 1"
    and "map_of (items st) ''launcher.surpriseName'' = None \<or>
         map_of (items st) ''launcher.surpriseName'' = Some [] \<or>
         (\<exists>s. map_of (items st) ''launcher.surpriseName'' = Some s \<and>
              get_prop SURPRISE_PALETTES s = Undefined)"
    and "\<forall>n \<in> set (map fst SURPRISE_PALETTES).
           usage (AList.update ''launcher.surpriseName'' n (items st)) \<le> quota st"
  shows "\<exists>name toks st' sty'.
           (name, toks) \<in> set SURPRISE_PALETTES \<and>
           applyTheme random surprise (st, sty) = Inr (st', sty') \<and>
           getItem st' ''launcher.surpriseName'' = Inr (Some name) \<and>
           setProperties (Own toks) sty = Inr sty'"
proof -
  let ?names = "map (\<lambda>n. Some (fst n)) SURPRISE_PALETTES"
  have miss: "\<not> (case map_of (items st) ''launcher.surpriseName'' of
                  None \<Rightarrow> False
                | Some s \<Rightarrow> Boolean_str s \<and> Boolean_prop (get_prop SURPRISE_PALETTES s))"
    using assms(4) by (auto simp: Boolean_str_def Boolean_prop_def)
  from pick_names [OF assms(2,3)]
  obtain name toks where sel: "js_get ?names \<lfloor>random * real (length ?names)\<rfloor> = Some name"
    and mem: "(name, toks) \<in> set SURPRISE_PALETTES" and own: "map_of SURPRISE_PALETTES name = Some toks"
    by blast
  from mem have "name \<in> set (map fst SURPRISE_PALETTES)" by force
  with assms(5) have q: "usage (AList.update ''launcher.surpriseName'' name (items st)) \<le> quota st"
    by blast
  define st' where "st' = st\<lparr>items := AList.update ''launcher.surpriseName'' name (items st)\<rparr>"
  have w: "setItem st ''launcher.surpriseName'' name = Inr st'"
    using assms(1) q by (simp add: setItem_def Let_def st'_def)
  obtain sty' where s: "setProperties (Own toks) sty = Inr sty'"
    by (simp add: setProperties_def)
  have "applyTheme random surprise (st, sty) =
      (case setItem st ''launcher.surpriseName'' name of
         Inl e \<Rightarrow> Inl e
       | Inr st' \<Rightarrow>
           (case setProperties (get_prop SURPRISE_PALETTES name) sty of
              Inl e \<Rightarrow> Inl e
            | Inr sty' \<Rightarrow> Inr (st', sty')))"
    using miss sel
    by (simp add: applyTheme_def getItem_def assms(1) Let_def String_of_def split: sum.splits)
  also have "\<dots> = Inr (st', sty')"
    by (simp add: w get_prop_def own s)
  finally have "applyTheme random surprise (st, sty) = Inr (st', sty')" .
  moreover have "getItem st' ''launcher.surpriseName'' = Inr (Some name)"
    using w by (rule getItem_setItem)
  ultimately show ?thesis using mem s by blast
qed

theorem applyTheme_fresh_pick_witness:
  "applyTheme (1/2) surprise
     (\<lparr>items = [(''launcher.surpriseName'', ''neon'')], quota = 5000000, enabled = True\<rparr>, Map.empty)
     = Inr (\<lparr>items = [(''launcher.surpriseName'', ''forest'')], quota = 5000000, enabled = True\<rparr>,
            [''--bg'' \<mapsto> Some ''#0f1512'', ''--fg'' \<mapsto> Some ''#e8ffef'', ''--card'' \<mapsto> Some ''#112019'',
             ''--muted'' \<mapsto> Some ''#86c19b'', ''--accent'' \<mapsto> Some ''#2fd477'',
             ''--ring'' \<mapsto> Some ''#7ce9a6''])"
proof -
  let ?st = "\<lparr>items = [(''launcher.surpriseName'', ''neon'')], quota = 5000000, enabled = True\<rparr>"
  have 1: "enabled ?st" by simp
  have 2: "(0::real) \<le> 1/2" "(1/2::real) < 1" by simp_all
  have 3: "map_of (items ?st) ''launcher.surpriseName'' = None \<or>
         map_of (items ?st) ''launcher.surpriseName'' = Some [] \<or>
         (\<exists>s. map_of (items ?st) ''launcher.surpriseName'' = Some s \<and>
              get_prop SURPRISE_PALETTES s = Undefined)"
    by (simp add: get_prop_def SURPRISE_PALETTES_def Object_prototype_keys_def)
  have 4: "\<forall>n \<in> set (map fst SURPRISE_PALETTES).
           usage (AList.update ''launcher.surpriseName'' n (items ?st)) \<le> quota ?st"
    by (simp add: SURPRISE_PALETTES_def usage_def)
  from applyTheme_fresh_pick [OF 1 2 3 4, of Map.empty]
  obtain name toks st' sty' where r: "applyTheme (1/2) surprise (?st, Map.empty) = Inr (st', sty')"
    by blast
  have "applyTheme (1/2) surprise (?st, Map.empty) =
      Inr (\<lparr>items = [(''launcher.surpriseName'', ''forest'')], quota = 5000000, enabled = True\<rparr>,
            [''--bg'' \<mapsto> Some ''#0f1512'', ''--fg'' \<mapsto> Some ''#e8ffef'', ''--card'' \<mapsto> Some ''#112019'',
             ''--muted'' \<mapsto> Some ''#86c19b'', ''--accent'' \<mapsto> Some ''#2fd477'',
             ''--ring'' \<mapsto> Some ''#7ce9a6''])"
    by (simp add: applyTheme_def getItem_def setItem_def usage_def Boolean_str_def
      Boolean_prop_def get_prop_def String_of_def SURPRISE_PALETTES_def Object_prototype_keys_def
      setProperties_def js_get_def)
  with r show ?thesis by simp
qed

text \<open>
  For light, dark and grafit the result does not depend on the number drawn: the tokens
  of the theme are applied and the storage is left as it is.
\<close>

theorem applyTheme_fixed:
  assumes "enabled st" and "th \<noteq> surprise"
  shows "\<exists>toks sty'. map_of THEMES th = Some toks \<and> setProperties (Own toks) sty = Inr sty' \<and>
           applyTheme random th (st, sty) = Inr (st, sty') \<and>
           applyTheme random' th (st, sty) = Inr (st, sty')"
  using assms
  by (cases th) (simp_all add: applyTheme_def getItem_def THEMES_def setProperties_def)

theorem applyTheme_fixed_witness:
  "applyTheme (1/2) grafit (\<lparr>items = [], quota = 5000000, enabled = True\<rparr>, Map.empty)
     = Inr (\<lparr>items = [], quota = 5000000, enabled = True\<rparr>,
            [''--bg'' \<mapsto> Some ''#0e0e10'', ''--fg'' \<mapsto> Some ''#e8e8ea'', ''--card'' \<mapsto> Some ''#151518'',
             ''--muted'' \<mapsto> Some ''#9a9aa2'', ''--accent'' \<mapsto> Some ''#c0c0c8'',
             ''--ring'' \<mapsto> Some ''#d6d6de''])"
  using applyTheme_fixed [of "\<lparr>items = [], quota = 5000000, enabled = True\<rparr>" grafit Map.empty "1/2" "1/2"]
  by (auto simp: THEMES_def setProperties_def)

lemma usage_update_key: "length k \<le> usage (AList.update k v xs)"
  by (induction xs) (auto simp: usage_def)

lemma setItem_no_quota:
  assumes "enabled st" "quota st = 0" "k \<noteq> []"
  shows "setItem st k v = Inl QuotaExceededError"
proof -
  have "0 < length k" using assms(3) by simp
  with usage_update_key [of k v "items st"] have "0 < usage (AList.update k v (items st))"
    by linarith
  with assms(1,2) show ?thesis by (simp add: setItem_def Let_def)
qed

text \<open>
  \<open>applyTheme\<close> reads and writes the storage outside any \<open>try\<close>: on a disabled storage
  every call ends in \<open>SecurityError\<close>, and on a storage without room the surprise theme
  ends in \<open>QuotaExceededError\<close>; in both cases no token is applied.
\<close>

theorem applyTheme_storage_throws:
  "(\<not> enabled st \<longrightarrow> applyTheme random th (st, sty) = Inl SecurityError) \<and>
   (enabled st \<and> quota st = 0 \<longrightarrow> applyTheme random surprise (st, sty) = Inl QuotaExceededError)"
  by (simp add: applyTheme_def getItem_def Let_def setItem_no_quota)

theorem applyTheme_storage_throws_witness:
  "applyTheme (1/2) dark (\<lparr>items = [], quota = 5000000, enabled = False\<rparr>, Map.empty) = Inl SecurityError \<and>
   applyTheme (1/2) surprise (\<lparr>items = [], quota = 0, enabled = True\<rparr>, Map.empty) = Inl QuotaExceededError"
  using applyTheme_storage_throws [of "\<lparr>items = [], quota = 5000000, enabled = False\<rparr>" "1/2" dark Map.empty]
    applyTheme_storage_throws [of "\<lparr>items = [], quota = 0, enabled = True\<rparr>" "1/2" dark Map.empty]
  by simp

end
